theory Spec2Isabelle
  imports Complex_Main
begin

section \<open>Python values, exceptions and results\<close>

text \<open>
  The module \<^verbatim>\<open>src/utils/settings.py\<close> is embedded shallowly. A Python value of the
  kinds the module handles is a \<open>pyval\<close>; a float is carried as the real number its
  literal denotes (the module never computes with floats, it only stores them). A call
  either raises or returns, so a call's result is a sum with the exception on the left.
\<close>

datatype pyval =
    PNone
  | PBool bool
  | PInt int
  | PFloat real
  | PStr string
  | PDict "(string \<times> pyval) list"

datatype pyerror = NameError string

type_synonym 'a result = "pyerror + 'a"

definition then_do :: "'a result \<Rightarrow> ('a \<Rightarrow> 'b result) \<Rightarrow> 'b result" where
  "then_do r k = (case r of Inl e \<Rightarrow> Inl e | Inr x \<Rightarrow> k x)"

section \<open>The dataclass ScraperConfig\<close>

record ScraperConfig =
  request_timeout :: int
  max_retries :: int
  retry_delay :: real
  user_agent :: string
  requests_per_second :: real
  concurrent_requests :: int
  respect_robots_txt :: bool
  output_format :: string
  output_directory :: string
  filename_template :: string
  html_parser :: string
  encoding :: string
  enable_cookies :: bool
  session_persistence :: bool
  log_level :: string
  log_file :: "string option"
  enable_request_logging :: bool
  enable_caching :: bool
  cache_directory :: string
  enable_compression :: bool
  custom_headers :: "(string \<times> string) list"
  proxy_settings :: "(string \<times> string) list"

text \<open>The field defaults of the class body, in declaration order.\<close>

definition ScraperConfig_defaults :: ScraperConfig where
  "ScraperConfig_defaults =
     \<lparr> request_timeout = 30,
       max_retries = 3,
       retry_delay = 1,
       user_agent = ''WebScraper/1.0'',
       requests_per_second = 1,
       concurrent_requests = 1,
       respect_robots_txt = True,
       output_format = ''json'',
       output_directory = ''./data'',
       filename_template = ''{domain}_{timestamp}'',
       html_parser = ''lxml'',
       encoding = ''utf-8'',
       enable_cookies = True,
       session_persistence = True,
       log_level = ''INFO'',
       log_file = None,
       enable_request_logging = False,
       enable_caching = True,
       cache_directory = ''./cache'',
       enable_compression = True,
       custom_headers = [],
       proxy_settings = [] \<rparr>"

text \<open>
  The attributes of a \<open>ScraperConfig\<close> object by name, as \<^verbatim>\<open>getattr\<close> and
  \<^verbatim>\<open>dataclasses.asdict\<close> see them.
\<close>

definition str_dict :: "(string \<times> string) list \<Rightarrow> pyval" where
  "str_dict d = PDict (map (\<lambda>(k, v). (k, PStr v)) d)"

definition config_fields :: "ScraperConfig \<Rightarrow> (string \<times> pyval) list" where
  "config_fields c =
     [ (''request_timeout'', PInt (request_timeout c)),
       (''max_retries'', PInt (max_retries c)),
       (''retry_delay'', PFloat (retry_delay c)),
       (''user_agent'', PStr (user_agent c)),
       (''requests_per_second'', PFloat (requests_per_second c)),
       (''concurrent_requests'', PInt (concurrent_requests c)),
       (''respect_robots_txt'', PBool (respect_robots_txt c)),
       (''output_format'', PStr (output_format c)),
       (''output_directory'', PStr (output_directory c)),
       (''filename_template'', PStr (filename_template c)),
       (''html_parser'', PStr (html_parser c)),
       (''encoding'', PStr (encoding c)),
       (''enable_cookies'', PBool (enable_cookies c)),
       (''session_persistence'', PBool (session_persistence c)),
       (''log_level'', PStr (log_level c)),
       (''log_file'', (case log_file c of None \<Rightarrow> PNone | Some f \<Rightarrow> PStr f)),
       (''enable_request_logging'', PBool (enable_request_logging c)),
       (''enable_caching'', PBool (enable_caching c)),
       (''cache_directory'', PStr (cache_directory c)),
       (''enable_compression'', PBool (enable_compression c)),
       (''custom_headers'', str_dict (custom_headers c)),
       (''proxy_settings'', str_dict (proxy_settings c)) ]"

definition field_names :: "string list" where
  "field_names = map fst (config_fields ScraperConfig_defaults)"

text \<open>
  \<^verbatim>\<open>_validate_config\<close> has the body \<^verbatim>\<open>pass\<close>: it returns \<open>None\<close> and leaves the
  object as it is. \<^verbatim>\<open>__post_init__\<close> calls it. \<open>ScraperConfig_init\<close> is the call
  \<^verbatim>\<open>ScraperConfig()\<close> with no argument, the only way the module builds one: the
  generated \<^verbatim>\<open>__init__\<close> stores the defaults and runs \<^verbatim>\<open>__post_init__\<close>.
\<close>

definition ScraperConfig_validate_config :: "ScraperConfig \<Rightarrow> (pyval \<times> ScraperConfig) result" where
  "ScraperConfig_validate_config self = Inr (PNone, self)"

definition ScraperConfig_post_init :: "ScraperConfig \<Rightarrow> (pyval \<times> ScraperConfig) result" where
  "ScraperConfig_post_init self =
     then_do (ScraperConfig_validate_config self) (\<lambda>(_, self'). Inr (PNone, self'))"

definition ScraperConfig_init :: "ScraperConfig result" where
  "ScraperConfig_init =
     then_do (ScraperConfig_post_init ScraperConfig_defaults) (\<lambda>(_, self'). Inr self')"

section \<open>The environment of the process\<close>

text \<open>
  What the module can read from outside: the files on disk (path to contents) and the
  environment variables. \<^verbatim>\<open>os.path.exists\<close> asks whether a path is there.
\<close>

record world =
  files :: "string \<rightharpoonup> string"
  environ :: "string \<rightharpoonup> string"

definition os_path_exists :: "world \<Rightarrow> string \<Rightarrow> bool" where
  "os_path_exists w p = (files w p \<noteq> None)"

section \<open>The class ConfigManager\<close>

record ConfigManager =
  config_file :: "string option"
  config :: ScraperConfig
  env_prefix :: string
  config_cache :: "(string \<times> pyval) list"

text \<open>
  A method takes its arguments, the object and the world, and returns its value with the
  object and the world as it leaves them. Every method below has the body \<^verbatim>\<open>pass\<close>
  in the source (under a docstring and a list of things still to implement): it returns
  \<open>None\<close> and assigns nothing.
\<close>

type_synonym method_result = "(pyval \<times> ConfigManager \<times> world) result"

definition ConfigManager_load_from_file :: "string \<Rightarrow> ConfigManager \<Rightarrow> world \<Rightarrow> method_result" where
  "ConfigManager_load_from_file filepath self w = Inr (PNone, self, w)"

definition ConfigManager_save_to_file :: "string \<Rightarrow> string \<Rightarrow> ConfigManager \<Rightarrow> world \<Rightarrow> method_result" where
  "ConfigManager_save_to_file filepath format self w = Inr (PNone, self, w)"

definition ConfigManager_load_from_dict :: "(string \<times> pyval) list \<Rightarrow> ConfigManager \<Rightarrow> world \<Rightarrow> method_result" where
  "ConfigManager_load_from_dict config_dict self w = Inr (PNone, self, w)"

definition ConfigManager_apply_environment_overrides :: "ConfigManager \<Rightarrow> world \<Rightarrow> method_result" where
  "ConfigManager_apply_environment_overrides self w = Inr (PNone, self, w)"

definition ConfigManager_get :: "string \<Rightarrow> pyval \<Rightarrow> ConfigManager \<Rightarrow> world \<Rightarrow> method_result" where
  "ConfigManager_get key dflt self w = Inr (PNone, self, w)"

definition ConfigManager_set :: "string \<Rightarrow> pyval \<Rightarrow> ConfigManager \<Rightarrow> world \<Rightarrow> method_result" where
  "ConfigManager_set key val self w = Inr (PNone, self, w)"

definition ConfigManager_update :: "(string \<times> pyval) list \<Rightarrow> ConfigManager \<Rightarrow> world \<Rightarrow> method_result" where
  "ConfigManager_update updates self w = Inr (PNone, self, w)"

definition ConfigManager_create_template :: "string \<Rightarrow> ConfigManager \<Rightarrow> world \<Rightarrow> method_result" where
  "ConfigManager_create_template filepath self w = Inr (PNone, self, w)"

definition ConfigManager_validate :: "ConfigManager \<Rightarrow> world \<Rightarrow> method_result" where
  "ConfigManager_validate self w = Inr (PNone, self, w)"

definition ConfigManager_get_profile :: "string \<Rightarrow> ConfigManager \<Rightarrow> world \<Rightarrow> method_result" where
  "ConfigManager_get_profile profile_name self w = Inr (PNone, self, w)"

definition ConfigManager_set_profile :: "string \<Rightarrow> (string \<times> pyval) list \<Rightarrow> ConfigManager \<Rightarrow> world \<Rightarrow> method_result" where
  "ConfigManager_set_profile profile_name profile_config self w = Inr (PNone, self, w)"

definition ConfigManager_switch_profile :: "string \<Rightarrow> ConfigManager \<Rightarrow> world \<Rightarrow> method_result" where
  "ConfigManager_switch_profile profile_name self w = Inr (PNone, self, w)"

definition ConfigManager_export_config :: "ConfigManager \<Rightarrow> world \<Rightarrow> method_result" where
  "ConfigManager_export_config self w = Inr (PNone, self, w)"

definition ConfigManager_reload :: "ConfigManager \<Rightarrow> world \<Rightarrow> method_result" where
  "ConfigManager_reload self w = Inr (PNone, self, w)"

definition ConfigManager_get_effective_config :: "ConfigManager \<Rightarrow> world \<Rightarrow> method_result" where
  "ConfigManager_get_effective_config self w = Inr (PNone, self, w)"

text \<open>
  The constructor: four assignments, then the file is loaded when a path was given
  (a truthy one: neither \<open>None\<close> nor the empty string) and exists, then the environment
  overrides are applied.
\<close>

definition ConfigManager_init :: "string option \<Rightarrow> world \<Rightarrow> (ConfigManager \<times> world) result" where
  "ConfigManager_init cfile w =
     then_do ScraperConfig_init (\<lambda>cfg.
       let self = \<lparr> config_file = cfile, config = cfg,
                    env_prefix = ''SCRAPER_'', config_cache = [] \<rparr>
       in then_do
            (case cfile of
               None \<Rightarrow> Inr (PNone, self, w)
             | Some p \<Rightarrow>
                 if p \<noteq> [] \<and> os_path_exists w p
                 then ConfigManager_load_from_file p self w
                 else Inr (PNone, self, w))
            (\<lambda>(_, self1, w1).
               then_do (ConfigManager_apply_environment_overrides self1 w1)
                 (\<lambda>(_, self2, w2). Inr (self2, w2))))"

text \<open>
  A client of the class calls its methods one after the other; \<open>invoke\<close> dispatches one
  call and \<open>run\<close> performs a sequence of them, stopping at the first exception.
\<close>

datatype method_call =
    Load_from_file string
  | Save_to_file string string
  | Load_from_dict "(string \<times> pyval) list"
  | Apply_environment_overrides
  | Get string pyval
  | Set string pyval
  | Update "(string \<times> pyval) list"
  | Create_template string
  | Validate
  | Get_profile string
  | Set_profile string "(string \<times> pyval) list"
  | Switch_profile string
  | Export_config
  | Reload
  | Get_effective_config

fun invoke :: "method_call \<Rightarrow> ConfigManager \<Rightarrow> world \<Rightarrow> method_result" where
  "invoke (Load_from_file p) = ConfigManager_load_from_file p"
| "invoke (Save_to_file p f) = ConfigManager_save_to_file p f"
| "invoke (Load_from_dict d) = ConfigManager_load_from_dict d"
| "invoke Apply_environment_overrides = ConfigManager_apply_environment_overrides"
| "invoke (Get k d) = ConfigManager_get k d"
| "invoke (Set k v) = ConfigManager_set k v"
| "invoke (Update u) = ConfigManager_update u"
| "invoke (Create_template p) = ConfigManager_create_template p"
| "invoke Validate = ConfigManager_validate"
| "invoke (Get_profile n) = ConfigManager_get_profile n"
| "invoke (Set_profile n c) = ConfigManager_set_profile n c"
| "invoke (Switch_profile n) = ConfigManager_switch_profile n"
| "invoke Export_config = ConfigManager_export_config"
| "invoke Reload = ConfigManager_reload"
| "invoke Get_effective_config = ConfigManager_get_effective_config"

fun run :: "method_call list \<Rightarrow> ConfigManager \<Rightarrow> world \<Rightarrow> (ConfigManager \<times> world) result" where
  "run [] self w = Inr (self, w)"
| "run (c # cs) self w =
     then_do (invoke c self w) (\<lambda>(_, self', w'). run cs self' w')"

section \<open>Executing the module: name resolution at import\<close>

text \<open>
  Importing the module executes its top-level statements in order. An \<^verbatim>\<open>import\<close>
  binds names in the module's globals (the imported modules are taken to be installed). A
  \<^verbatim>\<open>class\<close> statement evaluates its decorators, executes its body in a fresh class
  namespace and then binds the class name. In a class body an annotated assignment
  evaluates its value and its annotation, and a \<^verbatim>\<open>def\<close> evaluates the defaults of
  its parameters and then its annotations (the parameters' in order, the return
  annotation last): the module has no \<^verbatim>\<open>from __future__ import annotations\<close>, so
  under the evaluation rule of Python 3.0 to 3.13 annotations are evaluated when the
  \<^verbatim>\<open>def\<close> executes. A name is looked up in the class namespace, then the globals,
  then the builtins, and an unbound name raises \<open>NameError\<close>. Only name resolution is
  followed: an expression is a name, a constant, a subscript or a call.
\<close>

datatype expr =
    Name string
  | Constant
  | Subscript expr "expr list"
  | Call expr "expr list"

datatype class_stmt =
    AnnAssign string expr expr
  | FunctionDef string "expr list" "expr list"

datatype stmt =
    Import "string list"
  | ClassDef string "expr list" "class_stmt list"

fun eval_expr :: "string list \<Rightarrow> expr \<Rightarrow> unit result"
  and eval_exprs :: "string list \<Rightarrow> expr list \<Rightarrow> unit result" where
  "eval_expr ns (Name x) = (if x \<in> set ns then Inr () else Inl (NameError x))"
| "eval_expr ns Constant = Inr ()"
| "eval_expr ns (Subscript e args) =
     (case eval_expr ns e of Inl err \<Rightarrow> Inl err | Inr _ \<Rightarrow> eval_exprs ns args)"
| "eval_expr ns (Call f args) =
     (case eval_expr ns f of Inl err \<Rightarrow> Inl err | Inr _ \<Rightarrow> eval_exprs ns args)"
| "eval_exprs ns [] = Inr ()"
| "eval_exprs ns (e # es) =
     (case eval_expr ns e of Inl err \<Rightarrow> Inl err | Inr _ \<Rightarrow> eval_exprs ns es)"

fun exec_class_stmt :: "string list \<Rightarrow> string list \<Rightarrow> class_stmt \<Rightarrow> string list result" where
  "exec_class_stmt outer locals (AnnAssign x ann v) =
     then_do (eval_expr (locals @ outer) v) (\<lambda>_.
     then_do (eval_expr (locals @ outer) ann) (\<lambda>_. Inr (x # locals)))"
| "exec_class_stmt outer locals (FunctionDef f defaults anns) =
     then_do (eval_exprs (locals @ outer) defaults) (\<lambda>_.
     then_do (eval_exprs (locals @ outer) anns) (\<lambda>_. Inr (f # locals)))"

fun exec_class_body :: "string list \<Rightarrow> string list \<Rightarrow> class_stmt list \<Rightarrow> string list result" where
  "exec_class_body outer locals [] = Inr locals"
| "exec_class_body outer locals (s # ss) =
     then_do (exec_class_stmt outer locals s) (\<lambda>locals'. exec_class_body outer locals' ss)"

fun exec_stmt :: "string list \<Rightarrow> string list \<Rightarrow> stmt \<Rightarrow> string list result" where
  "exec_stmt builtins globals (Import names) = Inr (names @ globals)"
| "exec_stmt builtins globals (ClassDef c decorators body) =
     then_do (eval_exprs (globals @ builtins) decorators) (\<lambda>_.
     then_do (exec_class_body (globals @ builtins) [] body) (\<lambda>_. Inr (c # globals)))"

fun exec_module :: "string list \<Rightarrow> string list \<Rightarrow> stmt list \<Rightarrow> string list result" where
  "exec_module builtins globals [] = Inr globals"
| "exec_module builtins globals (s # ss) =
     then_do (exec_stmt builtins globals s) (\<lambda>globals'. exec_module builtins globals' ss)"

text \<open>The statements of \<^verbatim>\<open>settings.py\<close>, in source order.\<close>

definition settings_imports :: "stmt list" where
  "settings_imports =
     [ Import [''os''],
       Import [''yaml''],
       Import [''json''],
       Import [''Dict'', ''Any'', ''Optional'', ''Union''],
       Import [''dataclass'', ''field''],
       Import [''Path''] ]"

definition ScraperConfig_class :: stmt where
  "ScraperConfig_class =
     ClassDef ''ScraperConfig'' [Name ''dataclass'']
       [ AnnAssign ''request_timeout'' (Name ''int'') Constant,
         AnnAssign ''max_retries'' (Name ''int'') Constant,
         AnnAssign ''retry_delay'' (Name ''float'') Constant,
         AnnAssign ''user_agent'' (Name ''str'') Constant,
         AnnAssign ''requests_per_second'' (Name ''float'') Constant,
         AnnAssign ''concurrent_requests'' (Name ''int'') Constant,
         AnnAssign ''respect_robots_txt'' (Name ''bool'') Constant,
         AnnAssign ''output_format'' (Name ''str'') Constant,
         AnnAssign ''output_directory'' (Name ''str'') Constant,
         AnnAssign ''filename_template'' (Name ''str'') Constant,
         AnnAssign ''html_parser'' (Name ''str'') Constant,
         AnnAssign ''encoding'' (Name ''str'') Constant,
         AnnAssign ''enable_cookies'' (Name ''bool'') Constant,
         AnnAssign ''session_persistence'' (Name ''bool'') Constant,
         AnnAssign ''log_level'' (Name ''str'') Constant,
         AnnAssign ''log_file'' (Subscript (Name ''Optional'') [Name ''str'']) Constant,
         AnnAssign ''enable_request_logging'' (Name ''bool'') Constant,
         AnnAssign ''enable_caching'' (Name ''bool'') Constant,
         AnnAssign ''cache_directory'' (Name ''str'') Constant,
         AnnAssign ''enable_compression'' (Name ''bool'') Constant,
         AnnAssign ''custom_headers'' (Subscript (Name ''Dict'') [Name ''str'', Name ''str''])
           (Call (Name ''field'') [Name ''dict'']),
         AnnAssign ''proxy_settings'' (Subscript (Name ''Dict'') [Name ''str'', Name ''str''])
           (Call (Name ''field'') [Name ''dict'']),
         FunctionDef ''__post_init__'' [] [],
         FunctionDef ''_validate_config'' [] [Constant] ]"

definition Dict_str_Any :: expr where
  "Dict_str_Any = Subscript (Name ''Dict'') [Name ''str'', Name ''Any'']"

definition ConfigManager_class :: stmt where
  "ConfigManager_class =
     ClassDef ''ConfigManager'' []
       [ FunctionDef ''__init__'' [Constant] [Subscript (Name ''Optional'') [Name ''str'']],
         FunctionDef ''load_from_file'' [] [Name ''str'', Constant],
         FunctionDef ''save_to_file'' [Constant] [Name ''str'', Name ''str'', Constant],
         FunctionDef ''load_from_dict'' [] [Dict_str_Any, Constant],
         FunctionDef ''_apply_environment_overrides'' [] [Constant],
         FunctionDef ''get'' [Constant] [Name ''str'', Name ''Any'', Name ''Any''],
         FunctionDef ''set'' [] [Name ''str'', Name ''Any'', Constant],
         FunctionDef ''update'' [] [Dict_str_Any, Constant],
         FunctionDef ''create_template'' [] [Name ''str'', Constant],
         FunctionDef ''validate'' [] [Subscript (Name ''List'') [Name ''str'']],
         FunctionDef ''get_profile'' [] [Name ''str'', Dict_str_Any],
         FunctionDef ''set_profile'' [] [Name ''str'', Dict_str_Any, Constant],
         FunctionDef ''switch_profile'' [] [Name ''str'', Constant],
         FunctionDef ''export_config'' [] [Dict_str_Any],
         FunctionDef ''reload'' [] [Constant],
         FunctionDef ''watch_for_changes'' [Constant]
           [Subscript (Name ''Optional'') [Name ''callable''], Constant],
         FunctionDef ''get_effective_config'' [] [Name ''ScraperConfig''] ]"

definition settings_module :: "stmt list" where
  "settings_module = settings_imports @ [ScraperConfig_class, ConfigManager_class]"

text \<open>
  The builtin names the module's annotations and defaults refer to, with \<open>list\<close> and
  \<open>set\<close> beside them: the builtins hold \<open>list\<close>, not \<open>List\<close>.
\<close>

definition python_builtins :: "string list" where
  "python_builtins =
     [''int'', ''float'', ''str'', ''bool'', ''dict'', ''list'', ''set'', ''callable'']"

section \<open>Concrete managers and worlds\<close>

text \<open>
  The world with no file and no environment variable, the manager \<^verbatim>\<open>ConfigManager()\<close>
  builds in it, and the world of the precedence example: a file \<^verbatim>\<open>config.yaml\<close>
  setting \<^verbatim>\<open>requests_per_second\<close> to 2 and the environment variable
  \<^verbatim>\<open>SCRAPER_REQUESTS_PER_SECOND\<close> set to 5.
\<close>

definition empty_world :: world where
  "empty_world = \<lparr> files = Map.empty, environ = Map.empty \<rparr>"

definition fresh_manager :: ConfigManager where
  "fresh_manager =
     \<lparr> config_file = None, config = ScraperConfig_defaults,
       env_prefix = ''SCRAPER_'', config_cache = [] \<rparr>"

definition precedence_world :: world where
  "precedence_world =
     \<lparr> files = [''config.yaml'' \<mapsto> ''requests_per_second: 2''],
       environ = [''SCRAPER_REQUESTS_PER_SECOND'' \<mapsto> ''5''] \<rparr>"

text \<open>
  A manager whose configuration is not the default one: a client has assigned
  \<^verbatim>\<open>manager.config.request_timeout = 99\<close> (the dataclass is not frozen and the
  attribute is public). And a world with no file in which the environment variable
  \<^verbatim>\<open>SCRAPER_REQUEST_TIMEOUT\<close> is set to 60.
\<close>

definition tuned_manager :: ConfigManager where
  "tuned_manager = fresh_manager\<lparr> config := (config fresh_manager)\<lparr> request_timeout := 99 \<rparr> \<rparr>"

definition env_only_world :: world where
  "env_only_world =
     \<lparr> files = Map.empty, environ = [''SCRAPER_REQUEST_TIMEOUT'' \<mapsto> ''60''] \<rparr>"

section \<open>Construction and the methods' effect\<close>

lemmas method_defs =
  ConfigManager_load_from_file_def ConfigManager_save_to_file_def
  ConfigManager_load_from_dict_def ConfigManager_apply_environment_overrides_def
  ConfigManager_get_def ConfigManager_set_def ConfigManager_update_def
  ConfigManager_create_template_def ConfigManager_validate_def
  ConfigManager_get_profile_def ConfigManager_set_profile_def
  ConfigManager_switch_profile_def ConfigManager_export_config_def
  ConfigManager_reload_def ConfigManager_get_effective_config_def

lemma then_do_Inr: "then_do (Inr x) k = k x"
  by (simp add: then_do_def)

lemma then_do_Inl: "then_do (Inl e) k = Inl e"
  by (simp add: then_do_def)

lemma ScraperConfig_init_defaults: "ScraperConfig_init = Inr ScraperConfig_defaults"
  by (simp add: ScraperConfig_init_def ScraperConfig_post_init_def
      ScraperConfig_validate_config_def then_do_Inr)

lemma ConfigManager_init_result:
  "ConfigManager_init cfile w =
     Inr (\<lparr> config_file = cfile, config = ScraperConfig_defaults,
            env_prefix = ''SCRAPER_'', config_cache = [] \<rparr>, w)"
proof (cases cfile)
  case None
  then show ?thesis
    by (simp add: ConfigManager_init_def ScraperConfig_init_defaults then_do_Inr
        ConfigManager_apply_environment_overrides_def)
next
  case (Some p)
  then show ?thesis
    by (simp add: ConfigManager_init_def ScraperConfig_init_defaults then_do_Inr
        Let_def ConfigManager_apply_environment_overrides_def
        ConfigManager_load_from_file_def)
qed

lemma invoke_returns_None: "invoke c self w = Inr (PNone, self, w)"
  by (cases c) (simp_all add: method_defs)

lemma run_unchanged: "run cs self w = Inr (self, w)"
proof (induction cs)
  case Nil
  show ?case by simp
next
  case (Cons c cs)
  then show ?case by (simp add: invoke_returns_None then_do_Inr)
qed

section \<open>Importing the module\<close>

lemma settings_imports_bind:
  "exec_module builtins [] settings_imports =
     Inr [''Path'', ''dataclass'', ''field'', ''Dict'', ''Any'', ''Optional'', ''Union'',
          ''json'', ''yaml'', ''os'']"
  by (simp add: settings_imports_def then_do_Inr)

lemma exec_module_append:
  "exec_module builtins globals (xs @ ys) =
     then_do (exec_module builtins globals xs) (\<lambda>globals'. exec_module builtins globals' ys)"
  by (induction xs arbitrary: globals) (simp_all add: then_do_def split: sum.splits)

lemma ScraperConfig_class_executes:
  assumes "''int'' \<in> set builtins" "''float'' \<in> set builtins" "''str'' \<in> set builtins"
    "''bool'' \<in> set builtins" "''dict'' \<in> set builtins"
    and "set [''dataclass'', ''field'', ''Dict'', ''Optional''] \<subseteq> set globals"
  shows "exec_stmt builtins globals ScraperConfig_class = Inr (''ScraperConfig'' # globals)"
  using assms by (simp add: ScraperConfig_class_def then_do_def)

lemma ConfigManager_class_raises:
  assumes "''List'' \<notin> set builtins" "''List'' \<notin> set globals"
    and "''str'' \<in> set builtins"
    and "set [''Dict'', ''Any'', ''Optional''] \<subseteq> set globals"
  shows "exec_stmt builtins globals ConfigManager_class = Inl (NameError ''List'')"
  using assms by (simp add: ConfigManager_class_def Dict_str_Any_def then_do_def)

text \<open>
  Claim C1 says that importing the module succeeds. It does not: whenever the builtins
  hold the names the class bodies use and do not hold \<open>List\<close> (Python's never do),
  executing the module raises \<open>NameError\<close> for \<open>List\<close>, at the return annotation of
  \<^verbatim>\<open>ConfigManager.validate\<close>: the imports and the class \<open>ScraperConfig\<close> execute, the
  methods before \<^verbatim>\<open>validate\<close> are defined, and the class \<open>ConfigManager\<close> is never
  bound.
\<close>

theorem import_raises_NameError:
  assumes "''List'' \<notin> set builtins"
    and "''int'' \<in> set builtins" "''float'' \<in> set builtins" "''str'' \<in> set builtins"
      "''bool'' \<in> set builtins" "''dict'' \<in> set builtins"
  shows "exec_module builtins [] settings_module = Inl (NameError ''List'')"
proof -
  let ?G = "[''Path'', ''dataclass'', ''field'', ''Dict'', ''Any'', ''Optional'', ''Union'',
             ''json'', ''yaml'', ''os'']"
  have scraper: "exec_stmt builtins ?G ScraperConfig_class = Inr (''ScraperConfig'' # ?G)"
    using assms by (intro ScraperConfig_class_executes) simp_all
  have manager: "exec_stmt builtins (''ScraperConfig'' # ?G) ConfigManager_class
                   = Inl (NameError ''List'')"
    using assms by (intro ConfigManager_class_raises) simp_all
  show ?thesis
    unfolding settings_module_def exec_module_append settings_imports_bind
    by (simp add: then_do_Inr then_do_Inl scraper manager)
qed

theorem import_raises_NameError_witness:
  "''List'' \<notin> set python_builtins
   \<and> exec_module python_builtins [] settings_module = Inl (NameError ''List'')"
  using import_raises_NameError [of python_builtins]
  by (simp add: python_builtins_def)

text \<open>
  The failure is the unbound name and nothing else: were \<open>List\<close> resolvable, the whole
  module would execute and bind both classes.
\<close>

lemma module_executes_if_List_bound:
  "exec_module (''List'' # python_builtins) [] settings_module =
     Inr [''ConfigManager'', ''ScraperConfig'', ''Path'', ''dataclass'', ''field'', ''Dict'',
          ''Any'', ''Optional'', ''Union'', ''json'', ''yaml'', ''os'']"
  by (simp add: settings_module_def settings_imports_def ScraperConfig_class_def
      ConfigManager_class_def Dict_str_Any_def python_builtins_def then_do_def)

section \<open>The methods on concrete inputs\<close>

lemma ConfigManager_init_fresh:
  "ConfigManager_init None w = Inr (fresh_manager, w)"
  by (simp add: ConfigManager_init_result fresh_manager_def)

lemma config_fresh_manager: "config fresh_manager = ScraperConfig_defaults"
  by (simp add: fresh_manager_def)

text \<open>
  Claim C2 says that an environment value wins over the file's. In the world of the
  example the file exists and the variable is set, yet construction leaves
  \<open>requests_per_second\<close> at its default 1 (not 5, and not the file's 2), and
  \<^verbatim>\<open>get\<close> answers \<open>None\<close>: neither source is read.
\<close>

theorem environment_override_not_applied:
  "os_path_exists precedence_world ''config.yaml''
   \<and> environ precedence_world ''SCRAPER_REQUESTS_PER_SECOND'' = Some ''5''
   \<and> (\<exists>self. ConfigManager_init (Some ''config.yaml'') precedence_world
                = Inr (self, precedence_world)
        \<and> requests_per_second (config self) = 1
        \<and> requests_per_second (config self) \<noteq> 5
        \<and> ConfigManager_get ''requests_per_second'' PNone self precedence_world
             = Inr (PNone, self, precedence_world))"
proof -
  have "os_path_exists precedence_world ''config.yaml''"
    by (simp add: os_path_exists_def precedence_world_def)
  moreover have "environ precedence_world ''SCRAPER_REQUESTS_PER_SECOND'' = Some ''5''"
    by (simp add: precedence_world_def)
  moreover have "\<exists>self. ConfigManager_init (Some ''config.yaml'') precedence_world
                = Inr (self, precedence_world)
        \<and> requests_per_second (config self) = 1
        \<and> requests_per_second (config self) \<noteq> 5
        \<and> ConfigManager_get ''requests_per_second'' PNone self precedence_world
             = Inr (PNone, self, precedence_world)"
    by (simp add: ConfigManager_init_result ConfigManager_get_def ScraperConfig_defaults_def)
  ultimately show ?thesis by blast
qed

text \<open>
  Claim C3 says that with no file, no environment and no override \<^verbatim>\<open>get\<close> returns
  each field's default. The constructed manager does hold the defaults (30 for
  \<open>request_timeout\<close>, \<open>json\<close> for \<open>output_format\<close>), but \<^verbatim>\<open>get\<close> returns
  \<open>None\<close> for both keys.
\<close>

theorem get_ignores_field_defaults:
  "ConfigManager_init None empty_world = Inr (fresh_manager, empty_world)
   \<and> map_of (config_fields (config fresh_manager)) ''request_timeout'' = Some (PInt 30)
   \<and> ConfigManager_get ''request_timeout'' PNone fresh_manager empty_world
        = Inr (PNone, fresh_manager, empty_world)
   \<and> map_of (config_fields (config fresh_manager)) ''output_format'' = Some (PStr ''json'')
   \<and> ConfigManager_get ''output_format'' PNone fresh_manager empty_world
        = Inr (PNone, fresh_manager, empty_world)"
proof -
  have "map_of (config_fields (config fresh_manager)) ''request_timeout'' = Some (PInt 30)"
    by (simp add: config_fresh_manager config_fields_def ScraperConfig_defaults_def)
  moreover have
    "map_of (config_fields (config fresh_manager)) ''output_format'' = Some (PStr ''json'')"
    by (simp add: config_fresh_manager config_fields_def ScraperConfig_defaults_def)
  ultimately show ?thesis
    by (simp add: ConfigManager_init_fresh ConfigManager_get_def)
qed

text \<open>
  Claim C4 says that a batch with offending values is reported key by key. The batch of
  the example returns \<open>None\<close> and raises nothing, and \<^verbatim>\<open>validate\<close> afterwards returns
  \<open>None\<close> as well, not a list of two violations; the manager is unchanged. A batch that
  should validate is not applied either: after \<^verbatim>\<open>update({"request_timeout": 10})\<close>
  the field is still 30.
\<close>

theorem update_reports_no_violation:
  "ConfigManager_update
       [(''request_timeout'', PInt (- 1)), (''output_format'', PStr ''bogus'')] self w
     = Inr (PNone, self, w)
   \<and> ConfigManager_validate self w = Inr (PNone, self, w)
   \<and> ConfigManager_update [(''request_timeout'', PInt 10)] fresh_manager empty_world
        = Inr (PNone, fresh_manager, empty_world)
   \<and> request_timeout (config fresh_manager) = 30"
  by (simp add: ConfigManager_update_def ConfigManager_validate_def config_fresh_manager
      ScraperConfig_defaults_def)

text \<open>
  Claim C5, as amended. \<^verbatim>\<open>get\<close> never raises, for any key and any default, supplied or
  not; there is no \<open>KeyNotFound\<close> signal: for a key that is no field, with no default
  supplied (the parameter then holds its declared default \<open>None\<close>), the call returns
  \<open>None\<close>.
\<close>

theorem get_never_raises:
  "(\<exists>v self' w'. ConfigManager_get key dflt self w = Inr (v, self', w'))
   \<and> (key \<notin> set field_names \<longrightarrow>
        ConfigManager_get key PNone self w = Inr (PNone, self, w))"
  by (simp add: ConfigManager_get_def)

theorem get_never_raises_witness:
  "(\<exists>v self' w'. ConfigManager_get ''no_such_key'' (PInt 7) fresh_manager empty_world
                    = Inr (v, self', w'))
   \<and> ''no_such_key'' \<notin> set field_names
   \<and> ConfigManager_get ''no_such_key'' PNone fresh_manager empty_world
        = Inr (PNone, fresh_manager, empty_world)"
proof -
  have missing: "''no_such_key'' \<notin> set field_names"
    by (simp add: field_names_def config_fields_def)
  show ?thesis
    using get_never_raises [of "''no_such_key''" "PInt 7" fresh_manager empty_world] missing
    by blast
qed

text \<open>
  Claim C5 as stated fails. On the manager \<^verbatim>\<open>ConfigManager()\<close> builds, the key
  \<open>no_such_key\<close> is no field; \<^verbatim>\<open>get\<close> without a default returns \<open>None\<close> instead of
  signalling, \<^verbatim>\<open>get\<close> with the default 7 returns \<open>None\<close> instead of 7, and
  \<^verbatim>\<open>get\<close> of the existing key \<open>request_timeout\<close> returns \<open>None\<close> instead of 30.
\<close>

theorem get_KeyNotFound_counterexample:
  "ConfigManager_init None empty_world = Inr (fresh_manager, empty_world)
   \<and> ''no_such_key'' \<notin> set field_names
   \<and> ConfigManager_get ''no_such_key'' PNone fresh_manager empty_world
        = Inr (PNone, fresh_manager, empty_world)
   \<and> ConfigManager_get ''no_such_key'' (PInt 7) fresh_manager empty_world
        = Inr (PNone, fresh_manager, empty_world)
   \<and> PNone \<noteq> PInt 7
   \<and> ''request_timeout'' \<in> set field_names
   \<and> ConfigManager_get ''request_timeout'' PNone fresh_manager empty_world
        = Inr (PNone, fresh_manager, empty_world)
   \<and> request_timeout (config fresh_manager) = 30"
proof -
  have "''no_such_key'' \<notin> set field_names"
    by (simp add: field_names_def config_fields_def)
  moreover have "''request_timeout'' \<in> set field_names"
    by (simp add: field_names_def config_fields_def)
  moreover have "request_timeout (config fresh_manager) = 30"
    by (simp add: config_fresh_manager ScraperConfig_defaults_def)
  ultimately show ?thesis
    by (simp add: ConfigManager_init_fresh ConfigManager_get_def)
qed

section \<open>Reload, round trip, missing file\<close>

text \<open>
  Claim C6. Two calls of \<^verbatim>\<open>reload\<close> in the same world (no change to the file or the
  environment between them) both return, and the configuration after the second
  equals the configuration after the first.
\<close>

theorem reload_idempotent:
  "\<exists>s1 s2. ConfigManager_reload self w = Inr (PNone, s1, w)
      \<and> ConfigManager_reload s1 w = Inr (PNone, s2, w)
      \<and> config s2 = config s1
      \<and> s2 = s1"
  by (simp add: ConfigManager_reload_def)

text \<open>
  Claim C7 says that \<^verbatim>\<open>save_to_file\<close> followed by \<^verbatim>\<open>load_from_file\<close>
  reproduces the configuration that was saved. It does not: a manager whose
  \<open>request_timeout\<close> is 99 saves to \<^verbatim>\<open>saved.yaml\<close>, the call returns \<open>None\<close>
  and the world is as before, so no file has been written and the path still does not
  exist; a second manager, built by \<^verbatim>\<open>ConfigManager()\<close>, loads that path and keeps
  its own default 30. The configuration it holds differs from the one saved, in a
  field that is no secret.
\<close>

theorem save_then_load_loses_config:
  "request_timeout (config tuned_manager) = 99
   \<and> ConfigManager_save_to_file ''saved.yaml'' ''yaml'' tuned_manager empty_world
        = Inr (PNone, tuned_manager, empty_world)
   \<and> \<not> os_path_exists empty_world ''saved.yaml''
   \<and> ConfigManager_init None empty_world = Inr (fresh_manager, empty_world)
   \<and> ConfigManager_load_from_file ''saved.yaml'' fresh_manager empty_world
        = Inr (PNone, fresh_manager, empty_world)
   \<and> request_timeout (config fresh_manager) = 30
   \<and> config fresh_manager \<noteq> config tuned_manager"
proof -
  have saved: "request_timeout (config tuned_manager) = 99"
    by (simp add: tuned_manager_def)
  have loaded: "request_timeout (config fresh_manager) = 30"
    by (simp add: config_fresh_manager ScraperConfig_defaults_def)
  have differ: "config fresh_manager \<noteq> config tuned_manager"
  proof
    assume "config fresh_manager = config tuned_manager"
    then have "request_timeout (config fresh_manager) = request_timeout (config tuned_manager)"
      by simp
    with saved loaded show False by simp
  qed
  have no_file: "\<not> os_path_exists empty_world ''saved.yaml''"
    by (simp add: os_path_exists_def empty_world_def)
  show ?thesis
    using saved loaded differ no_file
    by (simp add: ConfigManager_save_to_file_def ConfigManager_load_from_file_def
        ConfigManager_init_fresh)
qed

text \<open>
  The guard of the constructor: for a path that does not exist the file loader is not
  called, construction succeeds, and the manager is the one built with no path (but
  for the recorded \<open>config_file\<close>). Reading the missing path with
  \<^verbatim>\<open>load_from_file\<close> returns as well.
\<close>

lemma missing_file_skips_loader:
  assumes "\<not> os_path_exists w p"
  shows "ConfigManager_init (Some p) w =
      then_do (ConfigManager_apply_environment_overrides
                 \<lparr> config_file = Some p, config = ScraperConfig_defaults,
                   env_prefix = ''SCRAPER_'', config_cache = [] \<rparr> w)
        (\<lambda>(_, self2, w2). Inr (self2, w2))"
  using assms
  by (simp add: ConfigManager_init_def ScraperConfig_init_defaults then_do_Inr Let_def)

lemma missing_file_like_no_file:
  assumes "\<not> os_path_exists w p"
  shows "\<exists>self self0. ConfigManager_init (Some p) w = Inr (self, w)
     \<and> ConfigManager_init None w = Inr (self0, w)
     \<and> self = self0\<lparr>config_file := Some p\<rparr>
     \<and> ConfigManager_load_from_file p self w = Inr (PNone, self, w)"
  by (simp add: missing_file_skips_loader [OF assms]
      ConfigManager_apply_environment_overrides_def then_do_Inr
      ConfigManager_init_result ConfigManager_load_from_file_def)

text \<open>
  Claim C9 says that with a missing file the result equals the defaults plus the
  remaining sources. Construction does succeed, but the remaining source is not
  applied: with no file on disk and \<^verbatim>\<open>SCRAPER_REQUEST_TIMEOUT=60\<close> in the
  environment, \<^verbatim>\<open>ConfigManager("missing.yaml")\<close> holds the bare defaults, with
  \<open>request_timeout\<close> 30 and not 60.
\<close>

theorem missing_file_environment_not_applied:
  "\<not> os_path_exists env_only_world ''missing.yaml''
   \<and> environ env_only_world ''SCRAPER_REQUEST_TIMEOUT'' = Some ''60''
   \<and> (\<exists>self. ConfigManager_init (Some ''missing.yaml'') env_only_world
                = Inr (self, env_only_world)
        \<and> config self = ScraperConfig_defaults
        \<and> request_timeout (config self) = 30
        \<and> request_timeout (config self) \<noteq> 60)"
proof -
  have missing: "\<not> os_path_exists env_only_world ''missing.yaml''"
    by (simp add: os_path_exists_def env_only_world_def)
  have variable: "environ env_only_world ''SCRAPER_REQUEST_TIMEOUT'' = Some ''60''"
    by (simp add: env_only_world_def)
  have built: "\<exists>self. ConfigManager_init (Some ''missing.yaml'') env_only_world
                = Inr (self, env_only_world)
        \<and> config self = ScraperConfig_defaults
        \<and> request_timeout (config self) = 30
        \<and> request_timeout (config self) \<noteq> 60"
    by (simp add: missing_file_skips_loader [OF missing]
        ConfigManager_apply_environment_overrides_def then_do_Inr
        ScraperConfig_defaults_def)
  from missing variable built show ?thesis by blast
qed

section \<open>Setting a key\<close>

text \<open>
  Claim C8 says that \<^verbatim>\<open>set("rate_limit.requests_per_second", 3)\<close> changes that leaf
  and nothing else. Nothing else changes, but neither does the leaf: with the dotted
  key or the plain field name the call returns \<open>None\<close> and the manager is as before,
  \<open>requests_per_second\<close> still 1.
\<close>

theorem set_leaves_leaf_unchanged:
  "ConfigManager_set ''rate_limit.requests_per_second'' (PInt 3) self w
     = Inr (PNone, self, w)
   \<and> ConfigManager_set ''requests_per_second'' (PInt 3) self w = Inr (PNone, self, w)
   \<and> ConfigManager_set ''rate_limit.requests_per_second'' (PInt 3) fresh_manager empty_world
        = Inr (PNone, fresh_manager, empty_world)
   \<and> requests_per_second (config fresh_manager) = 1
   \<and> requests_per_second (config fresh_manager) \<noteq> 3
   \<and> concurrent_requests (config fresh_manager) = 1"
  by (simp add: ConfigManager_set_def config_fresh_manager ScraperConfig_defaults_def)

section \<open>The invariant of the stubbed methods\<close>

text \<open>
  Claim C10. Construction yields a manager whose \<open>config\<close> is the all-defaults
  \<^verbatim>\<open>ScraperConfig()\<close>, with the given \<open>config_file\<close> and an empty cache. Each of
  \<^verbatim>\<open>load_from_file\<close>, \<^verbatim>\<open>load_from_dict\<close>, \<^verbatim>\<open>set\<close>, \<^verbatim>\<open>update\<close>,
  \<^verbatim>\<open>reload\<close>, \<^verbatim>\<open>switch_profile\<close> and \<^verbatim>\<open>_apply_environment_overrides\<close> returns
  \<open>None\<close> and leaves the manager (so its \<open>config\<close>, \<open>config_file\<close> and
  \<open>_config_cache\<close>) as it found it; so does every sequence of method calls after
  construction.
\<close>

theorem stubs_never_mutate:
  "(\<exists>self0. ConfigManager_init cfile w = Inr (self0, w)
      \<and> Inr (config self0) = ScraperConfig_init
      \<and> config self0 = ScraperConfig_defaults
      \<and> config_file self0 = cfile
      \<and> config_cache self0 = []
      \<and> run cs self0 w = Inr (self0, w))
   \<and> ConfigManager_load_from_file p self w = Inr (PNone, self, w)
   \<and> ConfigManager_load_from_dict d self w = Inr (PNone, self, w)
   \<and> ConfigManager_set k v self w = Inr (PNone, self, w)
   \<and> ConfigManager_update u self w = Inr (PNone, self, w)
   \<and> ConfigManager_reload self w = Inr (PNone, self, w)
   \<and> ConfigManager_switch_profile n self w = Inr (PNone, self, w)
   \<and> ConfigManager_apply_environment_overrides self w = Inr (PNone, self, w)"
proof -
  have "\<exists>self0. ConfigManager_init cfile w = Inr (self0, w)
      \<and> Inr (config self0) = ScraperConfig_init
      \<and> config self0 = ScraperConfig_defaults
      \<and> config_file self0 = cfile
      \<and> config_cache self0 = []
      \<and> run cs self0 w = Inr (self0, w)"
    by (simp add: ConfigManager_init_result ScraperConfig_init_defaults run_unchanged)
  moreover have "ConfigManager_load_from_file p self w = Inr (PNone, self, w)"
    by (simp add: ConfigManager_load_from_file_def)
  moreover have "ConfigManager_load_from_dict d self w = Inr (PNone, self, w)"
    by (simp add: ConfigManager_load_from_dict_def)
  moreover have "ConfigManager_set k v self w = Inr (PNone, self, w)"
    by (simp add: ConfigManager_set_def)
  moreover have "ConfigManager_update u self w = Inr (PNone, self, w)"
    by (simp add: ConfigManager_update_def)
  moreover have "ConfigManager_reload self w = Inr (PNone, self, w)"
    by (simp add: ConfigManager_reload_def)
  moreover have "ConfigManager_switch_profile n self w = Inr (PNone, self, w)"
    by (simp add: ConfigManager_switch_profile_def)
  moreover have "ConfigManager_apply_environment_overrides self w = Inr (PNone, self, w)"
    by (simp add: ConfigManager_apply_environment_overrides_def)
  ultimately show ?thesis by blast
qed

end
